theory Spec2Isabelle
  imports Main "HOL-Library.Code_Target_Nat"
begin

section \<open>sigprof: signal-triggered profiling\<close>

text \<open>
  A shallow embedding of \<^verbatim>\<open>sigprof/sigprof.go\<close>. The Go code acts on the operating
  system (files, the log, the standard streams) and on the profiling runtime
  (\<^verbatim>\<open>runtime/pprof\<close>). Both are made explicit: a \<open>world\<close> record is threaded through
  every function, and every operation that leaves the package appends an \<open>event\<close> to the
  world's \<open>trace\<close>. What the operating system and the runtime answer (does creating a
  file fail, is a profile name known, does a close fail) is read from an \<open>env\<close> record
  of oracles, which may depend on the whole current world.
\<close>

subsection \<open>Data\<close>

text \<open>\<^verbatim>\<open>type outputType string\<close>\<close>

type_synonym outputType = string

text \<open>
  \<^verbatim>\<open>os.Signal\<close> values: the two signals the package compares against, and every other
  signal (numbered, e.g. \<^verbatim>\<open>SIGHUP\<close> = 1).
\<close>

datatype Signal = SIGUSR1 | SIGUSR2 | OtherSignal nat

text \<open>
  Go \<^verbatim>\<open>error\<close> values. \<open>LookupFailed n\<close> is
  \<^verbatim>\<open>fmt.Errorf("failed to lookup profile %q", n)\<close>, \<open>StartFailed e\<close> is
  \<^verbatim>\<open>fmt.Errorf("failed to start CPU profiling: %v", e)\<close>, \<open>ErrClosed\<close> is
  \<^verbatim>\<open>os.ErrClosed\<close>, \<open>CPUInUse\<close> is the error of \<^verbatim>\<open>pprof.StartCPUProfile\<close> while a
  CPU profile is running, \<open>SysError m\<close> is any other error, with its message.
\<close>

datatype error = ErrClosed | CPUInUse | LookupFailed string | StartFailed error | SysError string

text \<open>\<^verbatim>\<open>*os.File\<close>: a descriptor and the name the file was opened with.\<close>

datatype File = File (fd: nat) (Name: string)

text \<open>
  The dynamic types an \<^verbatim>\<open>io.WriteCloser\<close> can have here: \<^verbatim>\<open>*os.File\<close>, the two
  wrappers of the package, and any other implementation (such as the buffers the
  tests inject), told apart by a number.
\<close>

datatype WriteCloser = OsFile File | stderrWriter | stdoutWriter | OtherWriter nat

text \<open>The lines the package writes with \<^verbatim>\<open>log.Printf\<close> and \<^verbatim>\<open>log.Println\<close>.\<close>

datatype logline =
    FailedCreate string error   \<comment> \<open>\<^verbatim>\<open>"failed to create file for %s profile: %v"\<close>\<close>
  | WritingTo string string     \<comment> \<open>\<^verbatim>\<open>"writing %s profile to %s"\<close>\<close>
  | CpuComplete                 \<comment> \<open>\<^verbatim>\<open>"cpu profile complete"\<close>\<close>
  | CpuCloseErr error           \<comment> \<open>\<^verbatim>\<open>log.Println("error closing file: %v", err)\<close> in the goroutine\<close>
  | FailedWrite string error    \<comment> \<open>\<^verbatim>\<open>"failed to write %s profile: %v"\<close>\<close>
  | ErrClosingFile error        \<comment> \<open>\<^verbatim>\<open>"error closing file: %v"\<close>\<close>
  | CleanupErr error            \<comment> \<open>\<^verbatim>\<open>"cleanup error removing file: %v"\<close>\<close>

datatype event =
    Log logline                          \<comment> \<open>a line written to the log\<close>
  | NewSink string outputType WriteCloser \<comment> \<open>\<^verbatim>\<open>s.writerFactory(profile, output)\<close> returned this sink\<close>
  | Capture WriteCloser string           \<comment> \<open>\<^verbatim>\<open>p.writeProfile(w, profileName)\<close> is invoked\<close>
  | CloseCall WriteCloser                \<comment> \<open>\<^verbatim>\<open>Close()\<close> is called on the sink\<close>
  | WriteCall WriteCloser string         \<comment> \<open>\<^verbatim>\<open>Write(p)\<close> is called on the sink\<close>
  | TempFileCall string                  \<comment> \<open>\<^verbatim>\<open>ioutil.TempFile("", prefix)\<close>\<close>
  | RemoveCall string                    \<comment> \<open>\<^verbatim>\<open>os.Remove(name)\<close>\<close>
  | StartCPU WriteCloser                 \<comment> \<open>\<^verbatim>\<open>pprof.StartCPUProfile(w)\<close>\<close>
  | StopCPU                              \<comment> \<open>\<^verbatim>\<open>pprof.StopCPUProfile()\<close>\<close>
  | Go nat WriteCloser                   \<comment> \<open>the \<^verbatim>\<open>go func() { ... }()\<close> of \<^verbatim>\<open>cpuProfile\<close>, with its wake-up time\<close>
  | FactoryRan string outputType WriteCloser \<comment> \<open>written by a recording writer factory as it returns: its arguments and its sink\<close>
  | ProfilerRan WriteCloser string       \<comment> \<open>written by a recording profiler as it is entered: its arguments\<close>

text \<open>
  The world: the paths that exist, the open descriptors (1 and 2 are the standard
  streams), the sink of the running CPU profile if any (the process-wide slot of
  \<^verbatim>\<open>runtime/pprof\<close>), the time, the goroutines asleep in \<^verbatim>\<open>time.Sleep\<close> with
  the time they wake up at and the sink they hold, and the trace of operations.
\<close>

record world =
  files :: "string set"
  handles :: "nat set"
  cpu :: "WriteCloser option"
  clock :: nat
  sleeping :: "(nat \<times> WriteCloser) list"
  trace :: "event list"

text \<open>
  The environment of the package: \<open>binary\<close> is \<^verbatim>\<open>filepath.Base(os.Args[0])\<close>,
  \<open>cpuProfileDuration\<close> the package variable of that name (30 seconds unless a test
  changes it), in nanoseconds. The other fields are what the operating system and
  the profiling runtime answer in a given world:
  \<open>tempFile w prefix\<close> is the error of \<^verbatim>\<open>ioutil.TempFile("", prefix)\<close> or the new
  descriptor and the path chosen; \<open>closeErr\<close>, \<open>writeErr\<close> and \<open>removeErr\<close> the error,
  if any, of closing an open sink, of writing to an open sink and of removing a path;
  \<open>lookup w n\<close> whether \<^verbatim>\<open>pprof.Lookup(n)\<close> is not nil; \<open>render w n\<close> the error of
  rendering profile \<open>n\<close> or the bytes rendered; \<open>cpuData w\<close> the bytes of the CPU
  profile.
\<close>

record env =
  binary :: string
  cpuProfileDuration :: nat
  tempFile :: "world \<Rightarrow> string \<Rightarrow> error + File"
  closeErr :: "world \<Rightarrow> WriteCloser \<Rightarrow> error option"
  writeErr :: "world \<Rightarrow> WriteCloser \<Rightarrow> error option"
  removeErr :: "world \<Rightarrow> string \<Rightarrow> error option"
  lookup :: "world \<Rightarrow> string \<Rightarrow> bool"
  render :: "world \<Rightarrow> string \<Rightarrow> error + string"
  cpuData :: "world \<Rightarrow> string"

text \<open>\<^verbatim>\<open>type profiler interface { writeProfile(w io.WriteCloser, profileName string) error }\<close>\<close>

type_synonym profiler = "WriteCloser \<Rightarrow> string \<Rightarrow> world \<Rightarrow> error option \<times> world"

text \<open>
  What one receive \<^verbatim>\<open>sig, ok := <-c\<close> does: it delivers a signal, or finds the channel
  closed, or blocks for ever. A channel is the sequence of these, by receive number.
\<close>

datatype recv = Received Signal | Closed | Blocked

type_synonym sigChan = "nat \<Rightarrow> recv"

text \<open>\<^verbatim>\<open>type sigprof struct\<close>, with its three injected factories.\<close>

record sigprof =
  usr1 :: "string list"
  usr2 :: "string list"
  "output" :: outputType
  writerFactory :: "string \<Rightarrow> outputType \<Rightarrow> world \<Rightarrow> WriteCloser \<times> world"
  profilerFactory :: "unit \<Rightarrow> profiler"
  sigChanFactory :: "unit \<Rightarrow> sigChan"

subsection \<open>The operating system and the profiling runtime\<close>

definition emit :: "event \<Rightarrow> world \<Rightarrow> world" where
  "emit e w = w\<lparr>trace := trace w @ [e]\<rparr>"

definition log_Printf :: "logline \<Rightarrow> world \<Rightarrow> world" where
  "log_Printf l w = emit (Log l) w"

text \<open>\<^verbatim>\<open>os.Stdout\<close> and \<^verbatim>\<open>os.Stderr\<close>.\<close>

definition os_Stdout :: File where
  "os_Stdout = File 1 ''/dev/stdout''"

definition os_Stderr :: File where
  "os_Stderr = File 2 ''/dev/stderr''"

text \<open>
  \<^verbatim>\<open>ioutil.TempFile("", prefix)\<close>: on success the path exists and the descriptor is
  open.
\<close>

definition ioutil_TempFile :: "env \<Rightarrow> string \<Rightarrow> world \<Rightarrow> (error + File) \<times> world" where
  "ioutil_TempFile E prefix w =
     (let w1 = emit (TempFileCall prefix) w in
      case tempFile E w prefix of
        Inl err \<Rightarrow> (Inl err, w1)
      | Inr f \<Rightarrow> (Inr f, w1\<lparr>files := insert (Name f) (files w1),
                             handles := insert (fd f) (handles w1)\<rparr>))"

text \<open>
  \<^verbatim>\<open>(*os.File).Close\<close>: a closed file answers \<^verbatim>\<open>os.ErrClosed\<close>; an open one is
  released, whatever the system call answers.
\<close>

definition File_Close :: "env \<Rightarrow> File \<Rightarrow> world \<Rightarrow> error option \<times> world" where
  "File_Close E f w =
     (let w1 = emit (CloseCall (OsFile f)) w in
      if fd f \<notin> handles w then (Some ErrClosed, w1)
      else (closeErr E w (OsFile f), w1\<lparr>handles := handles w1 - {fd f}\<rparr>))"

text \<open>\<^verbatim>\<open>(*os.File).Write\<close>\<close>

definition File_Write :: "env \<Rightarrow> File \<Rightarrow> string \<Rightarrow> world \<Rightarrow> error option \<times> world" where
  "File_Write E f p w =
     (if fd f \<notin> handles w then (Some ErrClosed, w)
      else (writeErr E w (OsFile f), emit (WriteCall (OsFile f) p) w))"

text \<open>\<^verbatim>\<open>os.Remove\<close>: the path is gone when the call succeeds.\<close>

definition os_Remove :: "env \<Rightarrow> string \<Rightarrow> world \<Rightarrow> error option \<times> world" where
  "os_Remove E path w =
     (let w1 = emit (RemoveCall path) w in
      case removeErr E w path of
        Some err \<Rightarrow> (Some err, w1)
      | None \<Rightarrow> (None, w1\<lparr>files := files w1 - {path}\<rparr>))"

text \<open>
  The methods of the two wrappers, lines 25 to 47: \<^verbatim>\<open>Write\<close> hands the bytes to the
  standard stream, \<^verbatim>\<open>Close\<close> returns nil.
\<close>

definition stderrWriter_Write :: "env \<Rightarrow> string \<Rightarrow> world \<Rightarrow> error option \<times> world" where
  "stderrWriter_Write E p w = File_Write E os_Stderr p w"

definition stderrWriter_Close :: "world \<Rightarrow> error option \<times> world" where
  "stderrWriter_Close w = (None, w)"

definition stdoutWriter_Write :: "env \<Rightarrow> string \<Rightarrow> world \<Rightarrow> error option \<times> world" where
  "stdoutWriter_Write E p w = File_Write E os_Stdout p w"

definition stdoutWriter_Close :: "world \<Rightarrow> error option \<times> world" where
  "stdoutWriter_Close w = (None, w)"

text \<open>
  A method call on an \<^verbatim>\<open>io.WriteCloser\<close> goes to the method of its dynamic type. A
  call of \<^verbatim>\<open>Close\<close> is recorded in the trace for every type (for a file by
  \<open>File_Close\<close> itself).
\<close>

fun Close :: "env \<Rightarrow> WriteCloser \<Rightarrow> world \<Rightarrow> error option \<times> world" where
  "Close E (OsFile f) w = File_Close E f w"
| "Close E stderrWriter w = stderrWriter_Close (emit (CloseCall stderrWriter) w)"
| "Close E stdoutWriter w = stdoutWriter_Close (emit (CloseCall stdoutWriter) w)"
| "Close E (OtherWriter n) w = (closeErr E w (OtherWriter n), emit (CloseCall (OtherWriter n)) w)"

fun Write :: "env \<Rightarrow> WriteCloser \<Rightarrow> string \<Rightarrow> world \<Rightarrow> error option \<times> world" where
  "Write E (OsFile f) p w = File_Write E f p w"
| "Write E stderrWriter p w = stderrWriter_Write E p w"
| "Write E stdoutWriter p w = stdoutWriter_Write E p w"
| "Write E (OtherWriter n) p w = (writeErr E w (OtherWriter n), emit (WriteCall (OtherWriter n) p) w)"

text \<open>
  \<^verbatim>\<open>pprof.Lookup(name).WriteTo(w, 1)\<close> for a profile that exists: the profile is
  rendered and written to the sink.
\<close>

definition Profile_WriteTo :: "env \<Rightarrow> string \<Rightarrow> WriteCloser \<Rightarrow> world \<Rightarrow> error option \<times> world" where
  "Profile_WriteTo E n wc w =
     (case render E w n of
        Inl err \<Rightarrow> (Some err, w)
      | Inr bytes \<Rightarrow> Write E wc bytes w)"

text \<open>
  \<^verbatim>\<open>pprof.StartCPUProfile(w)\<close> fails when a CPU profile is running and takes the slot
  otherwise; \<^verbatim>\<open>pprof.StopCPUProfile()\<close> writes what was collected and frees the slot.
\<close>

definition pprof_StartCPUProfile :: "WriteCloser \<Rightarrow> world \<Rightarrow> error option \<times> world" where
  "pprof_StartCPUProfile wc w =
     (let w1 = emit (StartCPU wc) w in
      case cpu w of
        Some _ \<Rightarrow> (Some CPUInUse, w1)
      | None \<Rightarrow> (None, w1\<lparr>cpu := Some wc\<rparr>))"

definition pprof_StopCPUProfile :: "env \<Rightarrow> world \<Rightarrow> world" where
  "pprof_StopCPUProfile E w =
     (let w1 = emit StopCPU w in
      case cpu w of
        None \<Rightarrow> w1
      | Some wc \<Rightarrow> (snd (Write E wc (cpuData E w) w1))\<lparr>cpu := None\<rparr>)"

subsection \<open>The package\<close>

text \<open>
  \<^verbatim>\<open>newWriter\<close>, lines 137 to 154. The prefix of the temporary file is
  \<^verbatim>\<open>fmt.Sprintf("%s.%s.prof.", filepath.Base(os.Args[0]), profile)\<close>.
\<close>

definition newWriter :: "env \<Rightarrow> string \<Rightarrow> outputType \<Rightarrow> world \<Rightarrow> WriteCloser \<times> world" where
  "newWriter E profile out w =
     (if out = ''file'' then
        (case ioutil_TempFile E (binary E @ ''.'' @ profile @ ''.prof.'') w of
           (Inl err, w1) \<Rightarrow> (stderrWriter, log_Printf (FailedCreate profile err) w1)
         | (Inr f, w1) \<Rightarrow> (OsFile f, log_Printf (WritingTo profile (Name f)) w1))
      else if out = ''stdout'' then (stdoutWriter, w)
      else if out = ''stderr'' then (stderrWriter, w)
      else (stderrWriter, w))"

text \<open>
  The body of the goroutine that \<^verbatim>\<open>cpuProfile\<close> starts, after its
  \<^verbatim>\<open>time.Sleep(cpuProfileDuration)\<close>: lines 182 to 187.
\<close>

definition cpuProfile_stop :: "env \<Rightarrow> WriteCloser \<Rightarrow> world \<Rightarrow> world" where
  "cpuProfile_stop E wc w =
     (let w1 = log_Printf CpuComplete w;
          w2 = pprof_StopCPUProfile E w1;
          (err, w3) = Close E wc w2
      in case err of
           Some e \<Rightarrow> log_Printf (CpuCloseErr e) w3
         | None \<Rightarrow> w3)"

text \<open>
  \<^verbatim>\<open>(*pprofiler).cpuProfile\<close>, lines 175 to 190. The \<^verbatim>\<open>go\<close> statement puts the
  goroutine to sleep until \<open>cpuProfileDuration\<close> from now and returns at once.
\<close>

definition cpuProfile :: "env \<Rightarrow> WriteCloser \<Rightarrow> world \<Rightarrow> error option \<times> world" where
  "cpuProfile E wc w =
     (case pprof_StartCPUProfile wc w of
        (Some err, w1) \<Rightarrow> (Some (StartFailed err), w1)
      | (None, w1) \<Rightarrow>
          (let t = clock w1 + cpuProfileDuration E in
           (None, (emit (Go t wc) w1)\<lparr>sleeping := sleeping w1 @ [(t, wc)]\<rparr>)))"

text \<open>\<^verbatim>\<open>(*pprofiler).writeProfile\<close>, lines 162 to 171.\<close>

definition writeProfile :: "env \<Rightarrow> profiler" where
  "writeProfile E wc profileName w =
     (if profileName = ''cpu'' then cpuProfile E wc w
      else if \<not> lookup E w profileName then (Some (LookupFailed profileName), w)
      else Profile_WriteTo E profileName wc w)"

text \<open>\<^verbatim>\<open>newProfiler\<close>, lines 192 to 194.\<close>

definition newProfiler :: "env \<Rightarrow> unit \<Rightarrow> profiler" where
  "newProfiler E u = writeProfile E"

text \<open>
  The scheduler's part in the goroutine: the \<open>i\<close>-th sleeping goroutine can run only
  once the clock has reached its wake-up time; it then leaves the queue and runs
  \<open>cpuProfile_stop\<close>. \<open>tick\<close> lets time pass.
\<close>

definition tick :: "nat \<Rightarrow> world \<Rightarrow> world" where
  "tick d w = w\<lparr>clock := clock w + d\<rparr>"

definition wake :: "env \<Rightarrow> nat \<Rightarrow> world \<Rightarrow> world option" where
  "wake E i w =
     (if i < length (sleeping w) \<and> fst (sleeping w ! i) \<le> clock w
      then Some (cpuProfile_stop E (snd (sleeping w ! i))
                   (w\<lparr>sleeping := take i (sleeping w) @ drop (Suc i) (sleeping w)\<rparr>))
      else None)"

text \<open>
  \<^verbatim>\<open>(*sigprof).profile\<close>, lines 196 to 216. The invocation of the profiler is
  recorded in the trace before the profiler runs. \<open>closeIt\<close> is the last statement,
  which the failure branch reaches when the sink is not a file.
\<close>

definition profile :: "env \<Rightarrow> sigprof \<Rightarrow> string \<Rightarrow> WriteCloser \<Rightarrow> world \<Rightarrow> world" where
  "profile E s profileName wc w =
     (let p = profilerFactory s ();
          (err, w1) = p wc profileName (emit (Capture wc profileName) w);
          closeIt = (\<lambda>w'. if profileName \<noteq> ''cpu'' then snd (Close E wc w') else w')
      in case err of
           None \<Rightarrow> closeIt w1
         | Some e \<Rightarrow>
             (let w2 = log_Printf (FailedWrite profileName e) w1 in
              case wc of
                OsFile f \<Rightarrow>
                  (let (cerr, w3) = File_Close E f w2;
                       w4 = (case cerr of Some ce \<Rightarrow> log_Printf (ErrClosingFile ce) w3 | None \<Rightarrow> w3);
                       (rerr, w5) = os_Remove E (Name f) w4
                   in case rerr of Some re \<Rightarrow> log_Printf (CleanupErr re) w5 | None \<Rightarrow> w5)
              | _ \<Rightarrow> closeIt w2))"

text \<open>
  \<^verbatim>\<open>(*sigprof).writer\<close>, lines 133 to 135. What the factory returned is recorded in
  the trace.
\<close>

definition writer :: "sigprof \<Rightarrow> string \<Rightarrow> world \<Rightarrow> WriteCloser \<times> world" where
  "writer s prof w =
     (let (wc, w1) = writerFactory s prof (output s) w
      in (wc, emit (NewSink prof (output s) wc) w1))"

text \<open>
  \<^verbatim>\<open>(*sigprof).profileSignal\<close>, lines 115 to 130: the \<^verbatim>\<open>range\<close> loop over the
  profiles, then the \<^verbatim>\<open>switch\<close> that chooses them.
\<close>

fun profileAll :: "env \<Rightarrow> sigprof \<Rightarrow> string list \<Rightarrow> world \<Rightarrow> world" where
  "profileAll E s [] w = w"
| "profileAll E s (prof # profiles) w =
     (let (wc, w1) = writer s prof w
      in profileAll E s profiles (profile E s prof wc w1))"

fun profileSignal :: "env \<Rightarrow> sigprof \<Rightarrow> Signal \<Rightarrow> world \<Rightarrow> world" where
  "profileSignal E s SIGUSR1 w = profileAll E s (usr1 s) w"
| "profileSignal E s SIGUSR2 w = profileAll E s (usr2 s) w"
| "profileSignal E s (OtherSignal n) w = w"

text \<open>
  \<^verbatim>\<open>(*sigprof).loop\<close>, lines 95 to 106. The \<^verbatim>\<open>for\<close> loop has no bound: \<open>loopFrom\<close> is
  its state before receive number \<open>i\<close>, and its value is \<open>None\<close> when the loop never
  returns.
\<close>

partial_function (option) loopFrom :: "env \<Rightarrow> sigprof \<Rightarrow> sigChan \<Rightarrow> nat \<Rightarrow> world \<Rightarrow> world option" where
  "loopFrom E s c i w =
     (case c i of
        Closed \<Rightarrow> Some w
      | Received sig \<Rightarrow> loopFrom E s c (Suc i) (profileSignal E s sig w)
      | Blocked \<Rightarrow> loopFrom E s c i w)"

declare loopFrom.simps [code]

definition loop :: "env \<Rightarrow> sigprof \<Rightarrow> world \<Rightarrow> world option" where
  "loop E s w = loopFrom E s (sigChanFactory s ()) 0 w"

subsection \<open>Observations on traces\<close>

text \<open>
  Kinds of events: what recording factories write, the log lines, and the calls of
  \<^verbatim>\<open>Close\<close>.
\<close>

fun isRan :: "event \<Rightarrow> bool" where
  "isRan (FactoryRan prof out wc) = True"
| "isRan (ProfilerRan wc prof) = True"
| "isRan e = False"

fun isLog :: "event \<Rightarrow> bool" where
  "isLog (Log l) = True"
| "isLog e = False"

fun isClose :: "event \<Rightarrow> bool" where
  "isClose (CloseCall wc) = True"
| "isClose e = False"

definition ran :: "world \<Rightarrow> event list" where
  "ran w = filter isRan (trace w)"

text \<open>What a world's trace has gained since an earlier world.\<close>

definition since :: "world \<Rightarrow> world \<Rightarrow> event list" where
  "since w w' = drop (length (trace w)) (trace w')"






text \<open>
  Injected factories are arbitrary functions on the world. These two conditions say
  that a writer factory and a profiler factory leave the records of the recording
  doubles alone: they neither add such records nor remove any.
\<close>

definition quietFactory :: "(string \<Rightarrow> outputType \<Rightarrow> world \<Rightarrow> WriteCloser \<times> world) \<Rightarrow> bool" where
  "quietFactory mk = (\<forall>prof out w. ran (snd (mk prof out w)) = ran w)"

definition quietProfiler :: "(unit \<Rightarrow> profiler) \<Rightarrow> bool" where
  "quietProfiler mk = (\<forall>wc prof w. ran (snd (mk () wc prof w)) = ran w)"

text \<open>A channel on which the given signals arrive and which is then closed.\<close>

definition chanOf :: "Signal list \<Rightarrow> sigChan" where
  "chanOf sigs i = (if i < length sigs then Received (sigs ! i) else Closed)"

text \<open>A channel on which the given signals arrive and nothing more, never closed.\<close>

definition chanOpen :: "Signal list \<Rightarrow> sigChan" where
  "chanOpen sigs i = (if i < length sigs then Received (sigs ! i) else Blocked)"

subsection \<open>The doubles of the tests\<close>

text \<open>
  From \<^verbatim>\<open>sigprof_test.go\<close>: \<^verbatim>\<open>testProfiler\<close> writes a marker line and succeeds,
  \<^verbatim>\<open>errorProfiler\<close> always fails, the writer factory of \<^verbatim>\<open>TestStubs\<close> returns a
  fresh buffer whose \<^verbatim>\<open>Close\<close> does nothing (here numbered by the length of the
  trace), and its channel delivers \<^verbatim>\<open>SIGUSR1\<close>, \<^verbatim>\<open>SIGUSR2\<close>, \<^verbatim>\<open>SIGHUP\<close> and is closed.
\<close>

definition testProfiler :: "env \<Rightarrow> unit \<Rightarrow> profiler" where
  "testProfiler E u wc profileName w =
     (None, snd (Write E wc (''test '' @ profileName @ [CHR 10]) w))"

definition errorProfiler :: "unit \<Rightarrow> profiler" where
  "errorProfiler u wc profileName w = (Some (SysError ''testing write failed''), w)"

definition bufferFactory :: "string \<Rightarrow> outputType \<Rightarrow> world \<Rightarrow> WriteCloser \<times> world" where
  "bufferFactory prof out w = (OtherWriter (length (trace w)), w)"

definition SIGHUP :: Signal where
  "SIGHUP = OtherSignal 1"

text \<open>
  An environment in which no operation fails and every profile is known; a new
  temporary file gets a descriptor and a suffix that grow with the trace.
\<close>

definition quietEnv :: env where
  "quietEnv = \<lparr>binary = ''app'', cpuProfileDuration = 30000000000,
     tempFile = (\<lambda>w prefix. Inr (File (3 + length (trace w))
                  (''/tmp/'' @ prefix @ replicate (length (trace w)) (CHR ''0'')))),
     closeErr = (\<lambda>w wc. None), writeErr = (\<lambda>w wc. None), removeErr = (\<lambda>w path. None),
     lookup = (\<lambda>w n. True), render = (\<lambda>w n. Inr (n @ '' profile'')),
     cpuData = (\<lambda>w. ''samples'')\<rparr>"

text \<open>A world at process start: only the standard streams are open.\<close>

definition startWorld :: world where
  "startWorld = \<lparr>files = {}, handles = {0, 1, 2}, cpu = None, clock = 0,
     sleeping = [], trace = []\<rparr>"

definition TestStubs :: sigprof where
  "TestStubs = \<lparr>usr1 = [''foo'', ''bar''], usr2 = [''baz'', ''quux''], output = ''orange'',
     writerFactory = bufferFactory, profilerFactory = testProfiler quietEnv,
     sigChanFactory = (\<lambda>u. chanOf [SIGUSR1, SIGUSR2, SIGHUP])\<rparr>"

text \<open>The dispatcher as \<^verbatim>\<open>newSigprof\<close> wires it, with the default configuration.\<close>

definition production :: "env \<Rightarrow> sigChan \<Rightarrow> sigprof" where
  "production E c = \<lparr>usr1 = [''goroutine''], usr2 = [''heap''], output = ''file'',
     writerFactory = newWriter E, profilerFactory = newProfiler E,
     sigChanFactory = (\<lambda>u. c)\<rparr>"

text \<open>
  \<^verbatim>\<open>TestWriteProfilerErr\<close>: a dispatcher whose profiler always fails, a temporary file
  that exists and is open, and the world the test starts in.
\<close>

definition TestWriteProfilerErr :: sigprof where
  "TestWriteProfilerErr = \<lparr>usr1 = [], usr2 = [], output = [],
     writerFactory = bufferFactory, profilerFactory = errorProfiler,
     sigChanFactory = (\<lambda>u. chanOf [])\<rparr>"

definition tmpFile :: File where
  "tmpFile = File 3 ''/tmp/123456''"

definition tmpWorld :: world where
  "tmpWorld = startWorld\<lparr>files := {''/tmp/123456''}, handles := {0, 1, 2, 3}\<rparr>"

text \<open>
  Environments in which one operation fails: removing a path; removing a path while
  no profile name is known; closing a sink; creating a temporary file.
\<close>

definition noRemoveEnv :: env where
  "noRemoveEnv = quietEnv\<lparr>removeErr := (\<lambda>w path. Some (SysError ''operation not permitted''))\<rparr>"

definition noLookupEnv :: env where
  "noLookupEnv = noRemoveEnv\<lparr>lookup := (\<lambda>w n. False)\<rparr>"

definition noCloseEnv :: env where
  "noCloseEnv = quietEnv\<lparr>closeErr := (\<lambda>w wc. Some (SysError ''input/output error''))\<rparr>"

definition noTempEnv :: env where
  "noTempEnv = quietEnv\<lparr>tempFile := (\<lambda>w prefix. Inl (SysError ''no space left on device''))\<rparr>"

subsection \<open>The loop\<close>

lemma loopFrom_Received: "c i = Received sig \<Longrightarrow> loopFrom E s c i w = loopFrom E s c (Suc i) (profileSignal E s sig w)"
  by (subst loopFrom.simps) simp

lemma loopFrom_Closed: "c i = Closed \<Longrightarrow> loopFrom E s c i w = Some w"
  by (subst loopFrom.simps) simp

lemma loopFrom_delivers:
  "\<forall>j<length sigs. c (i + j) = Received (sigs ! j) \<Longrightarrow>
   loopFrom E s c i w = loopFrom E s c (i + length sigs) (foldl (\<lambda>w' sig. profileSignal E s sig w') w sigs)"
proof (induction sigs arbitrary: i w)
  case Nil
  then show ?case by simp
next
  case (Cons sig sigs)
  from Cons.prems have "c (i + 0) = Received ((sig # sigs) ! 0)" by blast
  then have h0: "c i = Received sig" by simp
  have hs: "\<forall>j<length sigs. c (Suc i + j) = Received (sigs ! j)"
  proof (intro allI impI)
    fix j assume "j < length sigs"
    then have "Suc j < length (sig # sigs)" by simp
    with Cons.prems have "c (i + Suc j) = Received ((sig # sigs) ! Suc j)" by blast
    then show "c (Suc i + j) = Received (sigs ! j)" by simp
  qed
  have "loopFrom E s c i w = loopFrom E s c (Suc i) (profileSignal E s sig w)"
    using h0 by (rule loopFrom_Received)
  also have "\<dots> = loopFrom E s c (Suc i + length sigs)
      (foldl (\<lambda>w' sig. profileSignal E s sig w') (profileSignal E s sig w) sigs)"
    using hs by (rule Cons.IH)
  finally show ?case by simp
qed

lemma loopFrom_returns_closed:
  assumes ret: "loopFrom E s c i w = Some y"
  shows "\<exists>n\<ge>i. c n = Closed \<and> (\<forall>j. i \<le> j \<and> j < n \<longrightarrow> (\<exists>sig. c j = Received sig))"
proof (rule loopFrom.raw_induct [where P = "\<lambda>E s c i w y. \<exists>n\<ge>i. c n = Closed \<and> (\<forall>j. i \<le> j \<and> j < n \<longrightarrow> (\<exists>sig. c j = Received sig))", OF _ ret], goal_cases)
  case (1 lf E s c i w y)
  show ?case
  proof (cases "c i")
    case (Received sig)
    with 1(2) have "lf E s c (Suc i) (profileSignal E s sig w) = Some y" by simp
    then have "\<exists>n\<ge>Suc i. c n = Closed \<and> (\<forall>j. Suc i \<le> j \<and> j < n \<longrightarrow> (\<exists>sig. c j = Received sig))"
      by (rule 1(1))
    then obtain n where n: "Suc i \<le> n" "c n = Closed" "\<forall>j. Suc i \<le> j \<and> j < n \<longrightarrow> (\<exists>sig. c j = Received sig)" by blast
    have "\<forall>j. i \<le> j \<and> j < n \<longrightarrow> (\<exists>sig. c j = Received sig)"
    proof (intro allI impI)
      fix j assume j: "i \<le> j \<and> j < n"
      show "\<exists>sig. c j = Received sig"
      proof (cases "j = i")
        case True then show ?thesis using Received by simp
      next
        case False 
        then have "Suc i \<le> j \<and> j < n" using j by simp
        then show ?thesis using n(3) by blast
      qed
    qed
    moreover have "i \<le> n" using n(1) by simp
    ultimately show ?thesis using n(2) by blast
  next
    case Closed
    then show ?thesis by (intro exI[of _ i]) auto
  next
    case Blocked
    with 1(2) have "lf E s c i w = Some y" by simp
    then show ?thesis by (rule 1(1))
  qed
qed

lemma loop_delivers_then_closed:
  assumes "\<forall>j<length sigs. c j = Received (sigs ! j)" and "c (length sigs) = Closed"
  shows "loopFrom E s c 0 w = Some (foldl (\<lambda>w' sig. profileSignal E s sig w') w sigs)"
proof -
  from assms(1) have "\<forall>j<length sigs. c (0 + j) = Received (sigs ! j)" by simp
  then have "loopFrom E s c 0 w =
      loopFrom E s c (0 + length sigs) (foldl (\<lambda>w' sig. profileSignal E s sig w') w sigs)"
    by (rule loopFrom_delivers)
  also have "\<dots> = Some (foldl (\<lambda>w' sig. profileSignal E s sig w') w sigs)"
    using assms(2) by (simp add: loopFrom_Closed)
  finally show ?thesis .
qed

text \<open>
  C8: a received signal that is neither \<^verbatim>\<open>SIGUSR1\<close> nor \<^verbatim>\<open>SIGUSR2\<close> leaves the whole
  world as it was (no factory call, no capture, no line in the log, nothing in the
  trace), and the loop goes on to the next receive in that same world.
\<close>

theorem C8_other_signal_ignored:
  assumes "sig \<noteq> SIGUSR1" and "sig \<noteq> SIGUSR2"
  shows "profileSignal E s sig w = w \<and>
         (c i = Received sig \<longrightarrow> loopFrom E s c i w = loopFrom E s c (Suc i) w)"
proof -
  from assms have ign: "profileSignal E s sig w = w" by (cases sig) simp_all
  have "c i = Received sig \<Longrightarrow> loopFrom E s c i w = loopFrom E s c (Suc i) w"
    using ign by (simp add: loopFrom_Received)
  with ign show ?thesis by simp
qed

theorem C8_other_signal_ignored_witness:
  "SIGHUP \<noteq> SIGUSR1 \<and> SIGHUP \<noteq> SIGUSR2 \<and>
   profileSignal quietEnv TestStubs SIGHUP startWorld = startWorld \<and>
   loopFrom quietEnv TestStubs (chanOf [SIGUSR1, SIGUSR2, SIGHUP]) 2 startWorld =
   loopFrom quietEnv TestStubs (chanOf [SIGUSR1, SIGUSR2, SIGHUP]) (Suc 2) startWorld"
proof -
  have a: "SIGHUP \<noteq> SIGUSR1" and b: "SIGHUP \<noteq> SIGUSR2" by (simp_all add: SIGHUP_def)
  have c: "chanOf [SIGUSR1, SIGUSR2, SIGHUP] 2 = Received SIGHUP" by (simp add: chanOf_def)
  from C8_other_signal_ignored [OF a b, of quietEnv TestStubs startWorld
      "chanOf [SIGUSR1, SIGUSR2, SIGHUP]" 2] a b c
  show ?thesis by simp
qed

text \<open>
  C9: the loop returns exactly when the channel is found closed, that is, when some
  receive finds it closed and every receive before that one delivers a signal; it
  then returns the world in which every signal delivered before the close has been
  processed, in order. This holds for every configuration, factory and profiler,
  whatever fails in a capture.
\<close>

theorem C9_loop_returns_iff_closed:
  "((\<exists>w'. loop E s w = Some w') \<longleftrightarrow>
      (\<exists>n. sigChanFactory s () n = Closed \<and>
           (\<forall>j<n. \<exists>sig. sigChanFactory s () j = Received sig))) \<and>
   ((\<forall>j<length sigs. sigChanFactory s () j = Received (sigs ! j)) \<and>
    sigChanFactory s () (length sigs) = Closed \<longrightarrow>
      loop E s w = Some (foldl (\<lambda>w' sig. profileSignal E s sig w') w sigs))"
proof -
  define c where "c = sigChanFactory s ()"
  have fwd: "\<exists>n. c n = Closed \<and> (\<forall>j<n. \<exists>sig. c j = Received sig)" if "loop E s w = Some w'" for w'
  proof -
    from that have "loopFrom E s c 0 w = Some w'" by (simp add: loop_def c_def)
    then have "\<exists>n\<ge>0. c n = Closed \<and> (\<forall>j. 0 \<le> j \<and> j < n \<longrightarrow> (\<exists>sig. c j = Received sig))"
      by (rule loopFrom_returns_closed)
    then show ?thesis by simp
  qed
  have bwd: "loop E s w = Some (foldl (\<lambda>w' sig. profileSignal E s sig w') w sigs)"
    if "\<forall>j<length sigs. c j = Received (sigs ! j)" and "c (length sigs) = Closed" for sigs
    using that by (simp add: loop_def c_def [symmetric] loop_delivers_then_closed)
  have ex: "\<exists>w'. loop E s w = Some w'"
    if n: "c n = Closed" "\<forall>j<n. \<exists>sig. c j = Received sig" for n
  proof -
    define sigs where "sigs = map (\<lambda>j. case c j of Received sig \<Rightarrow> sig | _ \<Rightarrow> SIGUSR1) [0..<n]"
    have len: "length sigs = n" by (simp add: sigs_def)
    have "\<forall>j<length sigs. c j = Received (sigs ! j)"
    proof (intro allI impI)
      fix j assume "j < length sigs"
      then have j: "j < n" using len by simp
      with n(2) obtain sig where "c j = Received sig" by blast
      then show "c j = Received (sigs ! j)" using j by (simp add: sigs_def)
    qed
    moreover have "c (length sigs) = Closed" using n(1) len by simp
    ultimately have "loop E s w = Some (foldl (\<lambda>w' sig. profileSignal E s sig w') w sigs)"
      by (rule bwd)
    then show ?thesis by blast
  qed
  from fwd bwd ex show ?thesis unfolding c_def by blast
qed

theorem C9_loop_returns_iff_closed_witness:
  "loop quietEnv TestStubs startWorld =
     Some (foldl (\<lambda>w' sig. profileSignal quietEnv TestStubs sig w') startWorld
             [SIGUSR1, SIGUSR2, SIGHUP]) \<and>
   loop quietEnv (production quietEnv (chanOpen [SIGUSR1, SIGUSR2])) startWorld = None"
proof -
  have d: "\<forall>j<length [SIGUSR1, SIGUSR2, SIGHUP].
      sigChanFactory TestStubs () j = Received ([SIGUSR1, SIGUSR2, SIGHUP] ! j)"
    by (simp add: TestStubs_def chanOf_def)
  have e: "sigChanFactory TestStubs () (length [SIGUSR1, SIGUSR2, SIGHUP]) = Closed"
    by (simp add: TestStubs_def chanOf_def)
  have never: "\<not> (\<exists>n. sigChanFactory (production quietEnv (chanOpen [SIGUSR1, SIGUSR2])) () n = Closed
      \<and> (\<forall>j<n. \<exists>sig. sigChanFactory (production quietEnv (chanOpen [SIGUSR1, SIGUSR2])) () j = Received sig))"
    by (simp add: production_def chanOpen_def)
  from C9_loop_returns_iff_closed [of quietEnv TestStubs startWorld "[SIGUSR1, SIGUSR2, SIGHUP]"] d e
  have one: "loop quietEnv TestStubs startWorld =
     Some (foldl (\<lambda>w' sig. profileSignal quietEnv TestStubs sig w') startWorld
             [SIGUSR1, SIGUSR2, SIGHUP])" by blast
  from C9_loop_returns_iff_closed [of quietEnv "production quietEnv (chanOpen [SIGUSR1, SIGUSR2])" startWorld "[]"] never
  have "\<not> (\<exists>w'. loop quietEnv (production quietEnv (chanOpen [SIGUSR1, SIGUSR2])) startWorld = Some w')"
    by blast
  then have two: "loop quietEnv (production quietEnv (chanOpen [SIGUSR1, SIGUSR2])) startWorld = None"
    by simp
  from one two show ?thesis by simp
qed

subsection \<open>Traces of the operations\<close>

lemma trace_emit: "trace (emit e w) = trace w @ [e]"
  by (simp add: emit_def)

lemma trace_log_Printf: "trace (log_Printf l w) = trace w @ [Log l]"
  by (simp add: log_Printf_def emit_def)

lemma handles_emit: "handles (emit e w) = handles w"
  by (simp add: emit_def)

lemma files_emit: "files (emit e w) = files w"
  by (simp add: emit_def)

lemma handles_log_Printf: "handles (log_Printf l w) = handles w"
  by (simp add: log_Printf_def emit_def)

lemma files_log_Printf: "files (log_Printf l w) = files w"
  by (simp add: log_Printf_def emit_def)

lemma trace_File_Close: "trace (snd (File_Close E f w)) = trace w @ [CloseCall (OsFile f)]"
  by (simp add: File_Close_def emit_def Let_def)

lemma handles_File_Close: "fd f \<notin> handles (snd (File_Close E f w))"
  by (simp add: File_Close_def emit_def Let_def)

lemma files_File_Close: "files (snd (File_Close E f w)) = files w"
  by (simp add: File_Close_def emit_def Let_def)

lemma trace_Close: "trace (snd (Close E wc w)) = trace w @ [CloseCall wc]"
  by (cases wc) (simp_all add: trace_File_Close stderrWriter_Close_def stdoutWriter_Close_def emit_def)

lemma trace_os_Remove: "trace (snd (os_Remove E path w)) = trace w @ [RemoveCall path]"
  by (simp add: os_Remove_def emit_def Let_def split: option.splits)

lemma handles_os_Remove: "handles (snd (os_Remove E path w)) = handles w"
  by (simp add: os_Remove_def emit_def Let_def split: option.splits)

lemma files_os_Remove:
  "fst (os_Remove E path w) = None \<Longrightarrow> path \<notin> files (snd (os_Remove E path w))"
  by (simp add: os_Remove_def emit_def Let_def split: option.splits)

lemma since_append: "trace w' = trace w @ es \<Longrightarrow> since w w' = es"
  by (simp add: since_def)

text \<open>
  What \<open>profile\<close> does after the profiler has returned, by outcome and kind of sink.
\<close>

lemma profile_success:
  assumes "profilerFactory s () wc n (emit (Capture wc n) w) = (None, w1)"
  shows "profile E s n wc w = (if n \<noteq> ''cpu'' then snd (Close E wc w1) else w1)"
  using assms by (simp add: profile_def)

lemma profile_failure_other:
  assumes "profilerFactory s () wc n (emit (Capture wc n) w) = (Some e, w1)"
    and "\<forall>f. wc \<noteq> OsFile f"
  shows "profile E s n wc w =
    (if n \<noteq> ''cpu'' then snd (Close E wc (log_Printf (FailedWrite n e) w1))
     else log_Printf (FailedWrite n e) w1)"
  using assms by (cases wc) (simp_all add: profile_def Let_def)

lemma profile_failure_file:
  assumes "profilerFactory s () (OsFile f) n (emit (Capture (OsFile f) n) w) = (Some e, w1)"
  shows "\<exists>w4. profile E s n (OsFile f) w =
           (case fst (os_Remove E (Name f) w4) of
              Some re \<Rightarrow> log_Printf (CleanupErr re) (snd (os_Remove E (Name f) w4))
            | None \<Rightarrow> snd (os_Remove E (Name f) w4)) \<and>
         fd f \<notin> handles w4 \<and>
         (\<exists>cl. trace w4 = trace w1 @ [Log (FailedWrite n e), CloseCall (OsFile f)] @ cl \<and>
               (\<forall>x\<in>set cl. isLog x))"
proof -
  define w2 where "w2 = log_Printf (FailedWrite n e) w1"
  define w3 where "w3 = snd (File_Close E f w2)"
  define w4 where "w4 = (case fst (File_Close E f w2) of
      Some ce \<Rightarrow> log_Printf (ErrClosingFile ce) w3 | None \<Rightarrow> w3)"
  have t3: "trace w3 = trace w1 @ [Log (FailedWrite n e), CloseCall (OsFile f)]"
    by (simp add: w3_def w2_def trace_File_Close trace_log_Printf)
  have h3: "fd f \<notin> handles w3" by (simp add: w3_def handles_File_Close)
  have p: "profile E s n (OsFile f) w =
           (case fst (os_Remove E (Name f) w4) of
              Some re \<Rightarrow> log_Printf (CleanupErr re) (snd (os_Remove E (Name f) w4))
            | None \<Rightarrow> snd (os_Remove E (Name f) w4))"
    using assms unfolding w4_def w3_def w2_def by (simp add: profile_def Let_def split_beta)
  have h4: "fd f \<notin> handles w4" using h3 by (simp add: w4_def handles_log_Printf split: option.splits)
  have t4: "\<exists>cl. trace w4 = trace w1 @ [Log (FailedWrite n e), CloseCall (OsFile f)] @ cl \<and>
               (\<forall>x\<in>set cl. isLog x)"
  proof (cases "fst (File_Close E f w2)")
    case None
    then have "trace w4 = trace w1 @ [Log (FailedWrite n e), CloseCall (OsFile f)] @ []"
      using t3 by (simp add: w4_def)
    then show ?thesis by (intro exI[of _ "[]"]) simp
  next
    case (Some ce)
    then have "trace w4 = trace w1 @ [Log (FailedWrite n e), CloseCall (OsFile f)] @ [Log (ErrClosingFile ce)]"
      using t3 by (simp add: w4_def trace_log_Printf)
    then show ?thesis by (intro exI[of _ "[Log (ErrClosingFile ce)]"]) simp
  qed
  from p h4 t4 show ?thesis by blast
qed

text \<open>
  After a failed capture into a file, the dispatcher's operations other than log
  lines are one \<^verbatim>\<open>Close\<close> of the file and then one \<^verbatim>\<open>os.Remove\<close> of its name; the
  descriptor is not open afterwards; and the path is gone unless a cleanup error was
  logged.
\<close>

lemma profile_failure_file_cleanup:
  assumes eng: "profilerFactory s () (OsFile f) n (emit (Capture (OsFile f) n) w) = (Some e, w1)"
  shows "filter (\<lambda>x. \<not> isLog x) (since w1 (profile E s n (OsFile f) w)) =
           [CloseCall (OsFile f), RemoveCall (Name f)]"
    and "hd (since w1 (profile E s n (OsFile f) w)) = Log (FailedWrite n e)"
    and "fd f \<notin> handles (profile E s n (OsFile f) w)"
    and "(\<forall>re. Log (CleanupErr re) \<notin> set (since w1 (profile E s n (OsFile f) w))) \<Longrightarrow>
           Name f \<notin> files (profile E s n (OsFile f) w)"
proof -
  from profile_failure_file [OF eng, of E] obtain w4 cl where
    p: "profile E s n (OsFile f) w =
           (case fst (os_Remove E (Name f) w4) of
              Some re \<Rightarrow> log_Printf (CleanupErr re) (snd (os_Remove E (Name f) w4))
            | None \<Rightarrow> snd (os_Remove E (Name f) w4))"
    and h4: "fd f \<notin> handles w4"
    and t4: "trace w4 = trace w1 @ [Log (FailedWrite n e), CloseCall (OsFile f)] @ cl"
    and cl: "\<forall>x\<in>set cl. isLog x"
    by blast
  let ?w' = "profile E s n (OsFile f) w"
  have nolog: "filter (\<lambda>x. \<not> isLog x) cl = []" using cl by (simp add: filter_empty_conv)
  show "filter (\<lambda>x. \<not> isLog x) (since w1 ?w') = [CloseCall (OsFile f), RemoveCall (Name f)]"
  proof (cases "fst (os_Remove E (Name f) w4)")
    case None
    then have "trace ?w' = trace w1 @ ([Log (FailedWrite n e), CloseCall (OsFile f)] @ cl @ [RemoveCall (Name f)])"
      by (simp add: p trace_os_Remove t4)
    then have "since w1 ?w' = [Log (FailedWrite n e), CloseCall (OsFile f)] @ cl @ [RemoveCall (Name f)]"
      by (rule since_append)
    then show ?thesis using nolog by simp
  next
    case (Some re)
    then have "trace ?w' = trace w1 @ ([Log (FailedWrite n e), CloseCall (OsFile f)] @ cl @ [RemoveCall (Name f), Log (CleanupErr re)])"
      by (simp add: p trace_os_Remove trace_log_Printf t4)
    then have "since w1 ?w' = [Log (FailedWrite n e), CloseCall (OsFile f)] @ cl @ [RemoveCall (Name f), Log (CleanupErr re)]"
      by (rule since_append)
    then show ?thesis using nolog by simp
  qed
  show "hd (since w1 ?w') = Log (FailedWrite n e)"
  proof (cases "fst (os_Remove E (Name f) w4)")
    case None
    then have "trace ?w' = trace w1 @ ([Log (FailedWrite n e), CloseCall (OsFile f)] @ cl @ [RemoveCall (Name f)])"
      by (simp add: p trace_os_Remove t4)
    then have "since w1 ?w' = [Log (FailedWrite n e), CloseCall (OsFile f)] @ cl @ [RemoveCall (Name f)]"
      by (rule since_append)
    then show ?thesis by simp
  next
    case (Some re)
    then have "trace ?w' = trace w1 @ ([Log (FailedWrite n e), CloseCall (OsFile f)] @ cl @ [RemoveCall (Name f), Log (CleanupErr re)])"
      by (simp add: p trace_os_Remove trace_log_Printf t4)
    then have "since w1 ?w' = [Log (FailedWrite n e), CloseCall (OsFile f)] @ cl @ [RemoveCall (Name f), Log (CleanupErr re)]"
      by (rule since_append)
    then show ?thesis by simp
  qed
  show "fd f \<notin> handles ?w'"
    using h4 by (simp add: p handles_os_Remove handles_log_Printf split: option.splits)
  show "Name f \<notin> files ?w'" if nocl: "\<forall>re. Log (CleanupErr re) \<notin> set (since w1 ?w')"
  proof (cases "fst (os_Remove E (Name f) w4)")
    case None
    then show ?thesis by (simp add: p files_os_Remove)
  next
    case (Some re)
    then have "trace ?w' = trace w1 @ ([Log (FailedWrite n e), CloseCall (OsFile f)] @ cl @ [RemoveCall (Name f), Log (CleanupErr re)])"
      by (simp add: p trace_os_Remove trace_log_Printf t4)
    then have "since w1 ?w' = [Log (FailedWrite n e), CloseCall (OsFile f)] @ cl @ [RemoveCall (Name f), Log (CleanupErr re)]"
      by (rule since_append)
    then have "Log (CleanupErr re) \<in> set (since w1 ?w')" by simp
    with nocl show ?thesis by blast
  qed
qed

text \<open>
  C2, as stated, fails: the claim says that after every failed capture into a file
  the file is removed and no longer exists. In \<^verbatim>\<open>TestWriteProfilerErr\<close> run where
  \<^verbatim>\<open>os.Remove\<close> fails, the profiler fails, the file was there before, and the file is
  still there after \<open>profile\<close> returns.
\<close>

theorem C2_counterexample:
  "fst (profilerFactory TestWriteProfilerErr () (OsFile tmpFile) ''blops''
          (emit (Capture (OsFile tmpFile) ''blops'') tmpWorld)) \<noteq> None \<and>
   Name tmpFile \<in> files tmpWorld \<and>
   Name tmpFile \<in> files (profile noRemoveEnv TestWriteProfilerErr ''blops'' (OsFile tmpFile) tmpWorld)"
  by (simp add: TestWriteProfilerErr_def errorProfiler_def tmpFile_def tmpWorld_def startWorld_def
      noRemoveEnv_def quietEnv_def profile_def File_Close_def os_Remove_def log_Printf_def
      emit_def Let_def)

text \<open>
  C2, amended: for every capture whose sink is a file and whose engine call returns
  an error (whatever the profile name, \<^verbatim>\<open>"cpu"\<close> included), the dispatcher logs the
  failure, then closes the file handle exactly once and then calls \<^verbatim>\<open>os.Remove\<close> on
  the file's name exactly once, and does nothing else but log; the handle is not open
  afterwards, and the file no longer exists unless the removal failed and a cleanup
  error was logged.
\<close>

theorem C2_failed_file_capture_cleanup:
  assumes "profilerFactory s () (OsFile f) n (emit (Capture (OsFile f) n) w) = (Some e, w1)"
  shows "hd (since w1 (profile E s n (OsFile f) w)) = Log (FailedWrite n e) \<and>
         filter (\<lambda>x. \<not> isLog x) (since w1 (profile E s n (OsFile f) w)) =
           [CloseCall (OsFile f), RemoveCall (Name f)] \<and>
         fd f \<notin> handles (profile E s n (OsFile f) w) \<and>
         ((\<forall>re. Log (CleanupErr re) \<notin> set (since w1 (profile E s n (OsFile f) w))) \<longrightarrow>
            Name f \<notin> files (profile E s n (OsFile f) w))"
  using profile_failure_file_cleanup [OF assms, of E] by blast

theorem C2_failed_file_capture_cleanup_witness:
  "profilerFactory TestWriteProfilerErr () (OsFile tmpFile) ''blops''
       (emit (Capture (OsFile tmpFile) ''blops'') tmpWorld) =
     (Some (SysError ''testing write failed''), emit (Capture (OsFile tmpFile) ''blops'') tmpWorld) \<and>
   since tmpWorld (profile quietEnv TestWriteProfilerErr ''blops'' (OsFile tmpFile) tmpWorld) =
     [Capture (OsFile tmpFile) ''blops'', Log (FailedWrite ''blops'' (SysError ''testing write failed'')),
      CloseCall (OsFile tmpFile), RemoveCall ''/tmp/123456''] \<and>
   fd tmpFile \<notin> handles (profile quietEnv TestWriteProfilerErr ''blops'' (OsFile tmpFile) tmpWorld) \<and>
   Name tmpFile \<notin> files (profile quietEnv TestWriteProfilerErr ''blops'' (OsFile tmpFile) tmpWorld)"
proof -
  have eng: "profilerFactory TestWriteProfilerErr () (OsFile tmpFile) ''blops''
       (emit (Capture (OsFile tmpFile) ''blops'') tmpWorld) =
     (Some (SysError ''testing write failed''), emit (Capture (OsFile tmpFile) ''blops'') tmpWorld)"
    by (simp add: TestWriteProfilerErr_def errorProfiler_def)
  have tr: "since tmpWorld (profile quietEnv TestWriteProfilerErr ''blops'' (OsFile tmpFile) tmpWorld) =
     [Capture (OsFile tmpFile) ''blops'', Log (FailedWrite ''blops'' (SysError ''testing write failed'')),
      CloseCall (OsFile tmpFile), RemoveCall ''/tmp/123456'']"
    by (simp add: TestWriteProfilerErr_def errorProfiler_def tmpFile_def tmpWorld_def startWorld_def
      quietEnv_def profile_def File_Close_def os_Remove_def log_Printf_def
      emit_def Let_def since_def)
  have nocl: "\<forall>re. Log (CleanupErr re) \<notin> set (since (emit (Capture (OsFile tmpFile) ''blops'') tmpWorld)
      (profile quietEnv TestWriteProfilerErr ''blops'' (OsFile tmpFile) tmpWorld))"
    by (simp add: TestWriteProfilerErr_def errorProfiler_def tmpFile_def tmpWorld_def startWorld_def
      quietEnv_def profile_def File_Close_def os_Remove_def log_Printf_def
      emit_def Let_def since_def)
  from C2_failed_file_capture_cleanup [OF eng, of quietEnv] nocl eng tr show ?thesis by blast
qed

lemma writeProfile_unknown:
  assumes "n \<noteq> ''cpu''" and "\<not> lookup E w n"
  shows "writeProfile E wc n w = (Some (LookupFailed n), w)"
  using assms by (simp add: writeProfile_def)

text \<open>
  C5, as stated, fails: the claim says that for an unknown profile name a file sink
  is removed and nothing is left behind. Where no profile name is known and
  \<^verbatim>\<open>os.Remove\<close> fails, \<^verbatim>\<open>writeProfile\<close> fails with the lookup error for the name
  \<^verbatim>\<open>"nope"\<close>, and the file sink is still there after \<open>profile\<close> returns.
\<close>

theorem C5_counterexample:
  "''nope'' \<noteq> ''cpu'' \<and> \<not> lookup noLookupEnv tmpWorld ''nope'' \<and>
   fst (writeProfile noLookupEnv (OsFile tmpFile) ''nope'' tmpWorld) = Some (LookupFailed ''nope'') \<and>
   Name tmpFile \<in> files (profile noLookupEnv (production noLookupEnv (chanOf [])) ''nope''
                           (OsFile tmpFile) tmpWorld)"
  by (simp add: noLookupEnv_def noRemoveEnv_def quietEnv_def production_def newProfiler_def
      writeProfile_def tmpFile_def tmpWorld_def startWorld_def profile_def File_Close_def
      os_Remove_def log_Printf_def emit_def Let_def)

text \<open>
  C5, amended: for every profile name other than \<^verbatim>\<open>"cpu"\<close> that the profiling runtime
  does not know, \<^verbatim>\<open>writeProfile\<close> fails with the lookup error that carries the name
  and touches nothing; and when the sink is a file, the dispatcher logs that failure,
  closes the file once and then calls \<^verbatim>\<open>os.Remove\<close> on its name once, after which
  the handle is not open and the file no longer exists unless the removal failed and
  a cleanup error was logged.
\<close>

theorem C5_unknown_profile_fails_and_cleans_up:
  assumes "n \<noteq> ''cpu''" and "\<not> lookup E (emit (Capture wc n) w) n"
    and "profilerFactory s = newProfiler E"
  shows "writeProfile E wc n (emit (Capture wc n) w) =
           (Some (LookupFailed n), emit (Capture wc n) w) \<and>
         (\<forall>f. wc = OsFile f \<longrightarrow>
            filter (\<lambda>x. \<not> isLog x) (since w (profile E s n wc w)) =
              [Capture wc n, CloseCall wc, RemoveCall (Name f)] \<and>
            Log (FailedWrite n (LookupFailed n)) \<in> set (since w (profile E s n wc w)) \<and>
            fd f \<notin> handles (profile E s n wc w) \<and>
            ((\<forall>re. Log (CleanupErr re) \<notin> set (since w (profile E s n wc w))) \<longrightarrow>
               Name f \<notin> files (profile E s n wc w)))"
proof -
  let ?w1 = "emit (Capture wc n) w"
  have wp: "writeProfile E wc n ?w1 = (Some (LookupFailed n), ?w1)"
    using assms(1,2) by (rule writeProfile_unknown)
  have onfile: "filter (\<lambda>x. \<not> isLog x) (since w (profile E s n wc w)) =
              [Capture wc n, CloseCall wc, RemoveCall (Name f)] \<and>
            Log (FailedWrite n (LookupFailed n)) \<in> set (since w (profile E s n wc w)) \<and>
            fd f \<notin> handles (profile E s n wc w) \<and>
            ((\<forall>re. Log (CleanupErr re) \<notin> set (since w (profile E s n wc w))) \<longrightarrow>
               Name f \<notin> files (profile E s n wc w))" if wc: "wc = OsFile f" for f
  proof -
    let ?w' = "profile E s n (OsFile f) w"
    have eng: "profilerFactory s () (OsFile f) n (emit (Capture (OsFile f) n) w) =
        (Some (LookupFailed n), emit (Capture (OsFile f) n) w)"
      using wp by (simp add: assms(3) newProfiler_def wc)
    from profile_failure_file [OF eng, of E] obtain w4 cl where
      p: "?w' = (case fst (os_Remove E (Name f) w4) of
              Some re \<Rightarrow> log_Printf (CleanupErr re) (snd (os_Remove E (Name f) w4))
            | None \<Rightarrow> snd (os_Remove E (Name f) w4))"
      and t4: "trace w4 = trace (emit (Capture (OsFile f) n) w) @
                 [Log (FailedWrite n (LookupFailed n)), CloseCall (OsFile f)] @ cl"
      by blast
    have "\<exists>rm. trace ?w' = trace w4 @ rm"
      by (cases "fst (os_Remove E (Name f) w4)") (simp_all add: p trace_os_Remove trace_log_Printf)
    then obtain rm where "trace ?w' = trace w4 @ rm" by blast
    then have tr: "trace ?w' = trace w @ ([Capture (OsFile f) n] @
        [Log (FailedWrite n (LookupFailed n)), CloseCall (OsFile f)] @ cl @ rm)"
      by (simp add: t4 trace_emit)
    have s0: "since w ?w' = [Capture (OsFile f) n] @
        [Log (FailedWrite n (LookupFailed n)), CloseCall (OsFile f)] @ cl @ rm"
      using tr by (rule since_append)
    have s1: "since (emit (Capture (OsFile f) n) w) ?w' =
        [Log (FailedWrite n (LookupFailed n)), CloseCall (OsFile f)] @ cl @ rm"
      using tr by (simp add: since_def trace_emit)
    have rel: "since w ?w' = Capture (OsFile f) n # since (emit (Capture (OsFile f) n) w) ?w'"
      using s0 s1 by simp
    note cu = profile_failure_file_cleanup [OF eng, of E]
    have a: "filter (\<lambda>x. \<not> isLog x) (since w ?w') =
        [Capture (OsFile f) n, CloseCall (OsFile f), RemoveCall (Name f)]"
      using cu(1) by (simp add: rel)
    have b: "Log (FailedWrite n (LookupFailed n)) \<in> set (since w ?w')"
      using s0 by simp
    have c: "(\<forall>re. Log (CleanupErr re) \<notin> set (since w ?w')) \<longrightarrow> Name f \<notin> files ?w'"
      using cu(4) by (simp add: rel)
    from a b c cu(3) show ?thesis by (simp add: wc)
  qed
  from wp onfile show ?thesis by blast
qed

theorem C5_unknown_profile_fails_and_cleans_up_witness:
  "writeProfile (quietEnv\<lparr>lookup := (\<lambda>w n. False)\<rparr>) (OsFile tmpFile) ''nope''
       (emit (Capture (OsFile tmpFile) ''nope'') tmpWorld) =
     (Some (LookupFailed ''nope''), emit (Capture (OsFile tmpFile) ''nope'') tmpWorld) \<and>
   filter (\<lambda>x. \<not> isLog x)
     (since tmpWorld (profile (quietEnv\<lparr>lookup := (\<lambda>w n. False)\<rparr>)
        (production (quietEnv\<lparr>lookup := (\<lambda>w n. False)\<rparr>) (chanOf [])) ''nope'' (OsFile tmpFile) tmpWorld)) =
     [Capture (OsFile tmpFile) ''nope'', CloseCall (OsFile tmpFile), RemoveCall (Name tmpFile)] \<and>
   fd tmpFile \<notin> handles (profile (quietEnv\<lparr>lookup := (\<lambda>w n. False)\<rparr>)
        (production (quietEnv\<lparr>lookup := (\<lambda>w n. False)\<rparr>) (chanOf [])) ''nope'' (OsFile tmpFile) tmpWorld) \<and>
   Name tmpFile \<notin> files (profile (quietEnv\<lparr>lookup := (\<lambda>w n. False)\<rparr>)
        (production (quietEnv\<lparr>lookup := (\<lambda>w n. False)\<rparr>) (chanOf [])) ''nope'' (OsFile tmpFile) tmpWorld)"
proof -
  let ?E = "quietEnv\<lparr>lookup := (\<lambda>w n. False)\<rparr>"
  let ?s = "production ?E (chanOf [])"
  have a: "''nope'' \<noteq> ''cpu''" by simp
  have b: "\<not> lookup ?E (emit (Capture (OsFile tmpFile) ''nope'') tmpWorld) ''nope''" by simp
  have c: "profilerFactory ?s = newProfiler ?E" by (simp add: production_def)
  have nocl: "\<forall>re. Log (CleanupErr re) \<notin> set (since tmpWorld (profile ?E ?s ''nope'' (OsFile tmpFile) tmpWorld))"
    by (simp add: quietEnv_def production_def newProfiler_def
      writeProfile_def tmpFile_def tmpWorld_def startWorld_def profile_def File_Close_def
      os_Remove_def log_Printf_def emit_def Let_def since_def)
  from C5_unknown_profile_fails_and_cleans_up [OF a b c] nocl show ?thesis by blast
qed

text \<open>
  C10: when the sink is not a file and the profile name is not \<^verbatim>\<open>"cpu"\<close>, the
  dispatcher ends with the same single \<^verbatim>\<open>Close\<close> of the sink whether the engine call
  failed or succeeded (after a failure the log line comes first); so after a failed
  engine call it logs the failure and calls \<^verbatim>\<open>Close\<close> on the sink exactly once if
  the name is not \<^verbatim>\<open>"cpu"\<close>, and logs the failure and never calls \<^verbatim>\<open>Close\<close> if the
  name is \<^verbatim>\<open>"cpu"\<close>.
\<close>

theorem C10_failed_capture_non_file_sink:
  assumes "profilerFactory s () wc n (emit (Capture wc n) w) = (err, w1)"
    and "\<forall>f. wc \<noteq> OsFile f"
  shows "(n \<noteq> ''cpu'' \<longrightarrow>
            profile E s n wc w =
              snd (Close E wc (case err of None \<Rightarrow> w1 | Some e \<Rightarrow> log_Printf (FailedWrite n e) w1))) \<and>
         (\<forall>e. err = Some e \<longrightarrow>
            since w1 (profile E s n wc w) =
              (if n \<noteq> ''cpu'' then [Log (FailedWrite n e), CloseCall wc]
               else [Log (FailedWrite n e)]))"
proof -
  have ok: "profile E s n wc w = snd (Close E wc w1)" if "err = None" "n \<noteq> ''cpu''"
    using profile_success [of s wc n w w1 E] assms(1) that by simp
  have ko: "profile E s n wc w =
      (if n \<noteq> ''cpu'' then snd (Close E wc (log_Printf (FailedWrite n e) w1))
       else log_Printf (FailedWrite n e) w1)" if "err = Some e" for e
    using profile_failure_other [of s wc n w e w1 E] assms that by simp
  have a: "profile E s n wc w =
      snd (Close E wc (case err of None \<Rightarrow> w1 | Some e \<Rightarrow> log_Printf (FailedWrite n e) w1))"
    if "n \<noteq> ''cpu''"
  proof (cases err)
    case None
    with ok that show ?thesis by simp
  next
    case (Some e)
    with ko [of e] that show ?thesis by simp
  qed
  have b: "since w1 (profile E s n wc w) =
      (if n \<noteq> ''cpu'' then [Log (FailedWrite n e), CloseCall wc] else [Log (FailedWrite n e)])"
    if "err = Some e" for e
  proof -
    have "trace (profile E s n wc w) = trace w1 @
        (if n \<noteq> ''cpu'' then [Log (FailedWrite n e), CloseCall wc] else [Log (FailedWrite n e)])"
      unfolding ko [OF that] by (simp add: trace_Close trace_log_Printf)
    then show ?thesis by (rule since_append)
  qed
  from a b show ?thesis by blast
qed

theorem C10_failed_capture_non_file_sink_witness:
  "since (emit (Capture (OtherWriter 0) ''heap'') startWorld)
      (profile quietEnv TestWriteProfilerErr ''heap'' (OtherWriter 0) startWorld) =
     [Log (FailedWrite ''heap'' (SysError ''testing write failed'')), CloseCall (OtherWriter 0)] \<and>
   since (emit (Capture stderrWriter ''cpu'') startWorld)
      (profile quietEnv TestWriteProfilerErr ''cpu'' stderrWriter startWorld) =
     [Log (FailedWrite ''cpu'' (SysError ''testing write failed''))]"
proof -
  have e1: "profilerFactory TestWriteProfilerErr () (OtherWriter 0) ''heap''
      (emit (Capture (OtherWriter 0) ''heap'') startWorld) =
      (Some (SysError ''testing write failed''), emit (Capture (OtherWriter 0) ''heap'') startWorld)"
    by (simp add: TestWriteProfilerErr_def errorProfiler_def)
  have e2: "profilerFactory TestWriteProfilerErr () stderrWriter ''cpu''
      (emit (Capture stderrWriter ''cpu'') startWorld) =
      (Some (SysError ''testing write failed''), emit (Capture stderrWriter ''cpu'') startWorld)"
    by (simp add: TestWriteProfilerErr_def errorProfiler_def)
  have n1: "\<forall>f. OtherWriter 0 \<noteq> OsFile f" and n2: "\<forall>f. stderrWriter \<noteq> OsFile f" by simp_all
  from C10_failed_capture_non_file_sink [OF e1 n1, of quietEnv]
  have "since (emit (Capture (OtherWriter 0) ''heap'') startWorld)
      (profile quietEnv TestWriteProfilerErr ''heap'' (OtherWriter 0) startWorld) =
      (if ''heap'' \<noteq> ''cpu''
       then [Log (FailedWrite ''heap'' (SysError ''testing write failed'')), CloseCall (OtherWriter 0)]
       else [Log (FailedWrite ''heap'' (SysError ''testing write failed''))])"
    by blast
  then have s1: "since (emit (Capture (OtherWriter 0) ''heap'') startWorld)
      (profile quietEnv TestWriteProfilerErr ''heap'' (OtherWriter 0) startWorld) =
      [Log (FailedWrite ''heap'' (SysError ''testing write failed'')), CloseCall (OtherWriter 0)]"
    by simp
  from C10_failed_capture_non_file_sink [OF e2 n2, of quietEnv]
  have "since (emit (Capture stderrWriter ''cpu'') startWorld)
      (profile quietEnv TestWriteProfilerErr ''cpu'' stderrWriter startWorld) =
      (if ''cpu'' \<noteq> ''cpu''
       then [Log (FailedWrite ''cpu'' (SysError ''testing write failed'')), CloseCall stderrWriter]
       else [Log (FailedWrite ''cpu'' (SysError ''testing write failed''))])"
    by blast
  then have s2: "since (emit (Capture stderrWriter ''cpu'') startWorld)
      (profile quietEnv TestWriteProfilerErr ''cpu'' stderrWriter startWorld) =
      [Log (FailedWrite ''cpu'' (SysError ''testing write failed''))]"
    by simp
  from s1 s2 show ?thesis by blast
qed

text \<open>
  C4: the claim says that a failing close of a completed sink is logged, also after a
  successful point-in-time capture. The code discards the error of \<^verbatim>\<open>w.Close()\<close> on
  line 214. Here the heap profile is written to an open file by the real profiler,
  which succeeds; the close of the file then fails; and all the dispatcher has done
  is the capture, the write and the one close: no line is logged.
\<close>

theorem C4_close_error_after_success_not_logged:
  "fst (writeProfile noCloseEnv (OsFile tmpFile) ''heap''
          (emit (Capture (OsFile tmpFile) ''heap'') tmpWorld)) = None \<and>
   fst (Close noCloseEnv (OsFile tmpFile)
          (snd (writeProfile noCloseEnv (OsFile tmpFile) ''heap''
                  (emit (Capture (OsFile tmpFile) ''heap'') tmpWorld)))) =
     Some (SysError ''input/output error'') \<and>
   since tmpWorld (profile noCloseEnv (production noCloseEnv (chanOf [])) ''heap''
                     (OsFile tmpFile) tmpWorld) =
     [Capture (OsFile tmpFile) ''heap'', WriteCall (OsFile tmpFile) ''heap profile'',
      CloseCall (OsFile tmpFile)]"
  by (simp add: noCloseEnv_def quietEnv_def production_def newProfiler_def writeProfile_def
      Profile_WriteTo_def File_Write_def tmpFile_def tmpWorld_def startWorld_def profile_def
      File_Close_def emit_def Let_def since_def)

text \<open>
  C6: in file mode, when creating the temporary file fails, \<^verbatim>\<open>newWriter\<close> logs the
  failure and returns the standard-error wrapper; and a dispatcher that uses
  \<^verbatim>\<open>newWriter\<close> in file mode goes on with the capture of that profile into the
  standard-error wrapper, and then with the rest of the list.
\<close>

theorem C6_file_creation_failure_degrades_to_stderr:
  assumes "tempFile E w (binary E @ ''.'' @ prof @ ''.prof.'') = Inl err"
  shows "newWriter E prof ''file'' w =
           (stderrWriter,
            w\<lparr>trace := trace w @ [TempFileCall (binary E @ ''.'' @ prof @ ''.prof.''),
                                    Log (FailedCreate prof err)]\<rparr>) \<and>
         (writerFactory s = newWriter E \<and> output s = ''file'' \<longrightarrow>
            profileAll E s (prof # profiles) w =
              profileAll E s profiles
                (profile E s prof stderrWriter
                   (w\<lparr>trace := trace w @ [TempFileCall (binary E @ ''.'' @ prof @ ''.prof.''),
                                           Log (FailedCreate prof err),
                                           NewSink prof ''file'' stderrWriter]\<rparr>)))"
proof -
  have nw: "newWriter E prof ''file'' w =
           (stderrWriter,
            w\<lparr>trace := trace w @ [TempFileCall (binary E @ ''.'' @ prof @ ''.prof.''),
                                    Log (FailedCreate prof err)]\<rparr>)"
    using assms by (simp add: newWriter_def ioutil_TempFile_def log_Printf_def emit_def Let_def)
  have "profileAll E s (prof # profiles) w =
              profileAll E s profiles
                (profile E s prof stderrWriter
                   (w\<lparr>trace := trace w @ [TempFileCall (binary E @ ''.'' @ prof @ ''.prof.''),
                                           Log (FailedCreate prof err),
                                           NewSink prof ''file'' stderrWriter]\<rparr>))"
    if "writerFactory s = newWriter E" "output s = ''file''"
    using that by (simp add: writer_def nw emit_def)
  with nw show ?thesis by blast
qed

theorem C6_file_creation_failure_degrades_to_stderr_witness:
  "tempFile noTempEnv startWorld (binary noTempEnv @ ''.'' @ ''goroutine'' @ ''.prof.'') =
     Inl (SysError ''no space left on device'') \<and>
   fst (newWriter noTempEnv ''goroutine'' ''file'' startWorld) = stderrWriter \<and>
   trace (snd (newWriter noTempEnv ''goroutine'' ''file'' startWorld)) =
     [TempFileCall ''app.goroutine.prof.'',
      Log (FailedCreate ''goroutine'' (SysError ''no space left on device''))] \<and>
   trace (profileSignal noTempEnv (production noTempEnv (chanOf [SIGUSR1])) SIGUSR1 startWorld) =
     [TempFileCall ''app.goroutine.prof.'',
      Log (FailedCreate ''goroutine'' (SysError ''no space left on device'')),
      NewSink ''goroutine'' ''file'' stderrWriter,
      Capture stderrWriter ''goroutine'',
      WriteCall (OsFile os_Stderr) ''goroutine profile'',
      CloseCall stderrWriter]"
proof -
  have f: "tempFile noTempEnv startWorld (binary noTempEnv @ ''.'' @ ''goroutine'' @ ''.prof.'') =
     Inl (SysError ''no space left on device'')"
    by (simp add: noTempEnv_def)
  have b: "binary noTempEnv = ''app''" by (simp add: noTempEnv_def quietEnv_def)
  have t0: "trace startWorld = []" by (simp add: startWorld_def)
  have wf: "writerFactory (production noTempEnv (chanOf [SIGUSR1])) = newWriter noTempEnv"
    and out: "output (production noTempEnv (chanOf [SIGUSR1])) = ''file''"
    and u1: "usr1 (production noTempEnv (chanOf [SIGUSR1])) = [''goroutine'']"
    by (simp_all add: production_def)
  note inst = C6_file_creation_failure_degrades_to_stderr [OF f,
      of "production noTempEnv (chanOf [SIGUSR1])" "[]"]
  from inst have nw: "newWriter noTempEnv ''goroutine'' ''file'' startWorld =
      (stderrWriter,
       startWorld\<lparr>trace := trace startWorld @ [TempFileCall (binary noTempEnv @ ''.'' @ ''goroutine'' @ ''.prof.''),
                                    Log (FailedCreate ''goroutine'' (SysError ''no space left on device''))]\<rparr>)"
    by blast
  from inst wf out have pa: "profileAll noTempEnv (production noTempEnv (chanOf [SIGUSR1])) [''goroutine''] startWorld =
      profileAll noTempEnv (production noTempEnv (chanOf [SIGUSR1])) []
        (profile noTempEnv (production noTempEnv (chanOf [SIGUSR1])) ''goroutine'' stderrWriter
           (startWorld\<lparr>trace := trace startWorld @ [TempFileCall (binary noTempEnv @ ''.'' @ ''goroutine'' @ ''.prof.''),
                                           Log (FailedCreate ''goroutine'' (SysError ''no space left on device'')),
                                           NewSink ''goroutine'' ''file'' stderrWriter]\<rparr>))"
    by blast
  have r: "trace (profileSignal noTempEnv (production noTempEnv (chanOf [SIGUSR1])) SIGUSR1 startWorld) =
     [TempFileCall ''app.goroutine.prof.'',
      Log (FailedCreate ''goroutine'' (SysError ''no space left on device'')),
      NewSink ''goroutine'' ''file'' stderrWriter,
      Capture stderrWriter ''goroutine'',
      WriteCall (OsFile os_Stderr) ''goroutine profile'',
      CloseCall stderrWriter]"
    unfolding profileSignal.simps u1 pa
    by (simp add: b t0 production_def newProfiler_def writeProfile_def Profile_WriteTo_def
        stderrWriter_Write_def File_Write_def os_Stderr_def profile_def stderrWriter_Close_def
        emit_def noTempEnv_def quietEnv_def startWorld_def)
  from f nw r show ?thesis by (simp add: b t0)
qed

text \<open>
  C7: for every profile name, \<^verbatim>\<open>newWriter\<close> in mode \<^verbatim>\<open>"stdout"\<close> returns the wrapper
  whose \<^verbatim>\<open>Write\<close> is the write of \<^verbatim>\<open>os.Stdout\<close>, and in mode \<^verbatim>\<open>"stderr"\<close> the wrapper
  whose \<^verbatim>\<open>Write\<close> is the write of \<^verbatim>\<open>os.Stderr\<close>, in both cases without touching the
  world; the \<^verbatim>\<open>Close\<close> of either wrapper returns nil and changes nothing, so that a
  call of it on the sink leaves every descriptor, the standard streams included, as
  open as before; and in any mode other than \<^verbatim>\<open>"stdout"\<close>, \<^verbatim>\<open>"stderr"\<close> and
  \<^verbatim>\<open>"file"\<close>, the empty string included, \<^verbatim>\<open>newWriter\<close> does exactly what it does in
  mode \<^verbatim>\<open>"stderr"\<close>.
\<close>

theorem C7_standard_stream_writers:
  "newWriter E prof ''stdout'' w = (stdoutWriter, w) \<and>
   newWriter E prof ''stderr'' w = (stderrWriter, w) \<and>
   Write E stdoutWriter p w = File_Write E os_Stdout p w \<and>
   Write E stderrWriter p w = File_Write E os_Stderr p w \<and>
   stdoutWriter_Close w = (None, w) \<and>
   stderrWriter_Close w = (None, w) \<and>
   (wc = stdoutWriter \<or> wc = stderrWriter \<longrightarrow>
      fst (Close E wc w) = None \<and>
      handles (snd (Close E wc w)) = handles w \<and>
      files (snd (Close E wc w)) = files w \<and>
      trace (snd (Close E wc w)) = trace w @ [CloseCall wc]) \<and>
   (out \<noteq> ''stdout'' \<and> out \<noteq> ''stderr'' \<and> out \<noteq> ''file'' \<longrightarrow>
      newWriter E prof out w = newWriter E prof ''stderr'' w) \<and>
   newWriter E prof [] w = newWriter E prof ''stderr'' w"
proof -
  have a: "newWriter E prof ''stdout'' w = (stdoutWriter, w)"
    and b: "newWriter E prof ''stderr'' w = (stderrWriter, w)"
    and e: "newWriter E prof [] w = newWriter E prof ''stderr'' w"
    by (simp_all add: newWriter_def)
  have c: "Write E stdoutWriter p w = File_Write E os_Stdout p w"
    and d: "Write E stderrWriter p w = File_Write E os_Stderr p w"
    by (simp_all add: stdoutWriter_Write_def stderrWriter_Write_def)
  have f: "stdoutWriter_Close w = (None, w)" and g: "stderrWriter_Close w = (None, w)"
    by (simp_all add: stdoutWriter_Close_def stderrWriter_Close_def)
  have h: "fst (Close E wc w) = None \<and> handles (snd (Close E wc w)) = handles w \<and>
      files (snd (Close E wc w)) = files w \<and>
      trace (snd (Close E wc w)) = trace w @ [CloseCall wc]"
    if "wc = stdoutWriter \<or> wc = stderrWriter"
    using that by (auto simp add: stdoutWriter_Close_def stderrWriter_Close_def emit_def)
  have i: "newWriter E prof out w = newWriter E prof ''stderr'' w"
    if "out \<noteq> ''stdout'' \<and> out \<noteq> ''stderr'' \<and> out \<noteq> ''file''"
    using that by (simp add: newWriter_def)
  from a b c d e f g h i show ?thesis by blast
qed

theorem C7_standard_stream_writers_witness:
  "''orange'' \<noteq> ''stdout'' \<and> ''orange'' \<noteq> ''stderr'' \<and> ''orange'' \<noteq> ''file'' \<and>
   newWriter quietEnv ''blups'' ''orange'' startWorld = (stderrWriter, startWorld) \<and>
   newWriter quietEnv ''blips'' ''stdout'' startWorld = (stdoutWriter, startWorld) \<and>
   fst (Close quietEnv stdoutWriter startWorld) = None \<and>
   handles (snd (Close quietEnv stdoutWriter startWorld)) = {0, 1, 2}"
proof -
  have o: "''orange'' \<noteq> ''stdout'' \<and> ''orange'' \<noteq> ''stderr'' \<and> ''orange'' \<noteq> ''file''" by simp
  have s: "stdoutWriter = stdoutWriter \<or> stdoutWriter = stderrWriter" by simp
  have h0: "handles startWorld = {0, 1, 2}" by (simp add: startWorld_def)
  note inst = C7_standard_stream_writers [of quietEnv _ startWorld _ stdoutWriter]
  from inst [of "''blups''" "[]" "''orange''"] o
  have a: "newWriter quietEnv ''blups'' ''orange'' startWorld = (stderrWriter, startWorld)" by metis
  from inst [of "''blips''" "[]" "''orange''"] s
  have b: "newWriter quietEnv ''blips'' ''stdout'' startWorld = (stdoutWriter, startWorld)"
    and c: "fst (Close quietEnv stdoutWriter startWorld) = None"
    and d: "handles (snd (Close quietEnv stdoutWriter startWorld)) = handles startWorld"
    by blast+
  from o a b c d h0 show ?thesis by simp
qed

subsection \<open>The continuous CPU capture\<close>

lemma trace_Write:
  "\<exists>es. trace (snd (Write E wc p w)) = trace w @ es \<and> filter isClose es = []"
proof (cases wc)
  case (OsFile f)
  then show ?thesis
    by (cases "fd f \<in> handles w") (simp_all add: File_Write_def emit_def)
next
  case stderrWriter
  then show ?thesis
    by (cases "fd os_Stderr \<in> handles w") (simp_all add: stderrWriter_Write_def File_Write_def emit_def)
next
  case stdoutWriter
  then show ?thesis
    by (cases "fd os_Stdout \<in> handles w") (simp_all add: stdoutWriter_Write_def File_Write_def emit_def)
next
  case (OtherWriter n)
  then show ?thesis by (simp add: emit_def)
qed

lemma trace_pprof_StopCPUProfile:
  "\<exists>es. trace (pprof_StopCPUProfile E w) = trace w @ es \<and> filter isClose es = []"
proof (cases "cpu w")
  case None
  then have "trace (pprof_StopCPUProfile E w) = trace w @ [StopCPU]"
    by (simp add: pprof_StopCPUProfile_def emit_def Let_def)
  then show ?thesis by (intro exI[of _ "[StopCPU]"]) simp
next
  case (Some wc)
  from trace_Write [of E wc "cpuData E w" "emit StopCPU w"] obtain es where
    es: "trace (snd (Write E wc (cpuData E w) (emit StopCPU w))) = trace (emit StopCPU w) @ es"
      "filter isClose es = []" by blast
  have "trace (pprof_StopCPUProfile E w) = trace w @ (StopCPU # es)"
    using Some es(1) by (simp add: pprof_StopCPUProfile_def Let_def trace_emit)
  with es(2) show ?thesis by (intro exI[of _ "StopCPU # es"]) simp
qed

lemma cpuProfile_stop_closes_once:
  "filter isClose (since w (cpuProfile_stop E wc w)) = [CloseCall wc]"
proof -
  let ?w1 = "log_Printf CpuComplete w"
  let ?w2 = "pprof_StopCPUProfile E ?w1"
  from trace_pprof_StopCPUProfile [of E ?w1] obtain es where
    es: "trace ?w2 = trace ?w1 @ es" "filter isClose es = []" by blast
  have "\<exists>ls. trace (cpuProfile_stop E wc w) = trace w @ (Log CpuComplete # es @ CloseCall wc # ls) \<and>
      filter isClose ls = []"
  proof (cases "fst (Close E wc ?w2)")
    case None
    then have "trace (cpuProfile_stop E wc w) = trace w @ (Log CpuComplete # es @ CloseCall wc # [])"
      by (simp add: cpuProfile_stop_def Let_def split_beta trace_Close es(1) trace_log_Printf)
    then show ?thesis by (intro exI[of _ "[]"]) simp
  next
    case (Some e)
    then have "trace (cpuProfile_stop E wc w) = trace w @ (Log CpuComplete # es @ CloseCall wc # [Log (CpuCloseErr e)])"
      by (simp add: cpuProfile_stop_def Let_def split_beta trace_Close es(1) trace_log_Printf)
    then show ?thesis by (intro exI[of _ "[Log (CpuCloseErr e)]"]) simp
  qed
  then obtain ls where
    t: "trace (cpuProfile_stop E wc w) = trace w @ (Log CpuComplete # es @ CloseCall wc # ls)"
    and ls: "filter isClose ls = []" by blast
  from t have "since w (cpuProfile_stop E wc w) = Log CpuComplete # es @ CloseCall wc # ls"
    by (rule since_append)
  with es(2) ls show ?thesis by simp
qed

lemma cpuProfile_idle:
  assumes "cpu w = None"
  shows "cpuProfile E wc w =
    (None, w\<lparr>cpu := Some wc,
             sleeping := sleeping w @ [(clock w + cpuProfileDuration E, wc)],
             trace := trace w @ [StartCPU wc, Go (clock w + cpuProfileDuration E) wc]\<rparr>)"
  using assms by (simp add: cpuProfile_def pprof_StartCPUProfile_def emit_def Let_def)

text \<open>
  C3: while no CPU profile is running, the capture of \<^verbatim>\<open>"cpu"\<close> succeeds and returns
  as soon as collection has started, leaving a goroutine asleep until
  \<open>cpuProfileDuration\<close> from then; the dispatcher's \<open>profile\<close> returns in that same
  world, having called no \<^verbatim>\<open>Close\<close>; the goroutine can be woken in a later world
  exactly when the clock has reached that time; and when it runs, \<^verbatim>\<open>Close\<close> is
  called on the sink exactly once.
\<close>

theorem C3_cpu_capture_is_closed_by_the_deferred_stop:
  assumes "cpu w = None" and "profilerFactory s = newProfiler E"
  shows "writeProfile E wc ''cpu'' w =
           (None, w\<lparr>cpu := Some wc,
                    sleeping := sleeping w @ [(clock w + cpuProfileDuration E, wc)],
                    trace := trace w @ [StartCPU wc, Go (clock w + cpuProfileDuration E) wc]\<rparr>) \<and>
         profile E s ''cpu'' wc w =
           w\<lparr>cpu := Some wc,
             sleeping := sleeping w @ [(clock w + cpuProfileDuration E, wc)],
             trace := trace w @ [Capture wc ''cpu'', StartCPU wc,
                                 Go (clock w + cpuProfileDuration E) wc]\<rparr> \<and>
         filter isClose (since w (profile E s ''cpu'' wc w)) = [] \<and>
         (\<forall>w' i. i < length (sleeping w') \<and>
                 sleeping w' ! i = (clock w + cpuProfileDuration E, wc) \<longrightarrow>
            ((\<exists>w''. wake E i w' = Some w'') \<longleftrightarrow> clock w + cpuProfileDuration E \<le> clock w') \<and>
            (\<forall>w''. wake E i w' = Some w'' \<longrightarrow> filter isClose (since w' w'') = [CloseCall wc]))"
proof -
  let ?t = "clock w + cpuProfileDuration E"
  have a: "writeProfile E wc ''cpu'' w =
           (None, w\<lparr>cpu := Some wc, sleeping := sleeping w @ [(?t, wc)],
                    trace := trace w @ [StartCPU wc, Go ?t wc]\<rparr>)"
    using assms(1) by (simp add: writeProfile_def cpuProfile_idle)
  have idle': "cpu (emit (Capture wc ''cpu'') w) = None" using assms(1) by (simp add: emit_def)
  have eng: "profilerFactory s () wc ''cpu'' (emit (Capture wc ''cpu'') w) =
      (None, w\<lparr>cpu := Some wc, sleeping := sleeping w @ [(?t, wc)],
               trace := trace w @ [Capture wc ''cpu'', StartCPU wc, Go ?t wc]\<rparr>)"
    using cpuProfile_idle [OF idle', of E wc]
    by (simp add: assms(2) newProfiler_def writeProfile_def emit_def)
  have b: "profile E s ''cpu'' wc w =
           w\<lparr>cpu := Some wc, sleeping := sleeping w @ [(?t, wc)],
             trace := trace w @ [Capture wc ''cpu'', StartCPU wc, Go ?t wc]\<rparr>"
    using profile_success [OF eng, of E] by simp
  have c: "filter isClose (since w (profile E s ''cpu'' wc w)) = []"
    by (simp add: b since_def)
  have d: "((\<exists>w''. wake E i w' = Some w'') \<longleftrightarrow> ?t \<le> clock w') \<and>
            (\<forall>w''. wake E i w' = Some w'' \<longrightarrow> filter isClose (since w' w'') = [CloseCall wc])"
    if i: "i < length (sleeping w')" "sleeping w' ! i = (?t, wc)" for w' i
  proof -
    let ?v = "w'\<lparr>sleeping := take i (sleeping w') @ drop (Suc i) (sleeping w')\<rparr>"
    have tv: "trace ?v = trace w'" by simp
    have "since w' (cpuProfile_stop E wc ?v) = since ?v (cpuProfile_stop E wc ?v)"
      by (simp add: since_def)
    then have cl: "filter isClose (since w' (cpuProfile_stop E wc ?v)) = [CloseCall wc]"
      by (simp add: cpuProfile_stop_closes_once)
    show ?thesis using i cl by (auto simp add: wake_def)
  qed
  from a b c d show ?thesis by blast
qed

theorem C3_cpu_capture_is_closed_by_the_deferred_stop_witness:
  "cpu startWorld = None \<and>
   trace (profile quietEnv (production quietEnv (chanOf [SIGUSR1])) ''cpu'' (OtherWriter 0) startWorld) =
     [Capture (OtherWriter 0) ''cpu'', StartCPU (OtherWriter 0), Go 30000000000 (OtherWriter 0)] \<and>
   wake quietEnv 0
     (profile quietEnv (production quietEnv (chanOf [SIGUSR1])) ''cpu'' (OtherWriter 0) startWorld) = None \<and>
   (\<exists>w''. wake quietEnv 0
       (tick 30000000000
          (profile quietEnv (production quietEnv (chanOf [SIGUSR1])) ''cpu'' (OtherWriter 0) startWorld)) =
       Some w'' \<and>
     filter isClose
       (since (tick 30000000000
          (profile quietEnv (production quietEnv (chanOf [SIGUSR1])) ''cpu'' (OtherWriter 0) startWorld)) w'') =
       [CloseCall (OtherWriter 0)])"
proof -
  let ?s = "production quietEnv (chanOf [SIGUSR1])"
  let ?wc = "OtherWriter 0"
  let ?w1 = "profile quietEnv ?s ''cpu'' ?wc startWorld"
  have idle: "cpu startWorld = None" by (simp add: startWorld_def)
  have real: "profilerFactory ?s = newProfiler quietEnv" by (simp add: production_def)
  have dur: "cpuProfileDuration quietEnv = 30000000000" by (simp add: quietEnv_def)
  have c0: "clock startWorld = 0" and t0: "trace startWorld = []" and s0: "sleeping startWorld = []"
    by (simp_all add: startWorld_def)
  note inst = C3_cpu_capture_is_closed_by_the_deferred_stop [OF idle real, of ?wc]
  from inst have p: "?w1 = startWorld\<lparr>cpu := Some ?wc,
             sleeping := sleeping startWorld @ [(clock startWorld + cpuProfileDuration quietEnv, ?wc)],
             trace := trace startWorld @ [Capture ?wc ''cpu'', StartCPU ?wc,
                                 Go (clock startWorld + cpuProfileDuration quietEnv) ?wc]\<rparr>"
    by blast
  have tr: "trace ?w1 = [Capture ?wc ''cpu'', StartCPU ?wc, Go 30000000000 ?wc]"
    by (simp add: p dur c0 t0)
  have sl: "sleeping ?w1 = [(clock startWorld + cpuProfileDuration quietEnv, ?wc)]"
    by (simp add: p s0)
  have ck: "clock ?w1 = 0" by (simp add: p c0)
  from inst have later: "\<And>w' i. i < length (sleeping w') \<and>
                 sleeping w' ! i = (clock startWorld + cpuProfileDuration quietEnv, ?wc) \<Longrightarrow>
            ((\<exists>w''. wake quietEnv i w' = Some w'') \<longleftrightarrow>
               clock startWorld + cpuProfileDuration quietEnv \<le> clock w') \<and>
            (\<forall>w''. wake quietEnv i w' = Some w'' \<longrightarrow> filter isClose (since w' w'') = [CloseCall ?wc])"
    by blast
  have i1: "0 < length (sleeping ?w1) \<and>
      sleeping ?w1 ! 0 = (clock startWorld + cpuProfileDuration quietEnv, ?wc)"
    by (simp add: sl)
  have i2: "0 < length (sleeping (tick 30000000000 ?w1)) \<and>
      sleeping (tick 30000000000 ?w1) ! 0 = (clock startWorld + cpuProfileDuration quietEnv, ?wc)"
    by (simp add: sl tick_def)
  have "\<not> (\<exists>w''. wake quietEnv 0 ?w1 = Some w'')"
    using later [OF i1] by (simp add: ck dur c0)
  then have early: "wake quietEnv 0 ?w1 = None" by simp
  have "\<exists>w''. wake quietEnv 0 (tick 30000000000 ?w1) = Some w''"
    using later [OF i2] by (simp add: ck dur c0 tick_def)
  then obtain w'' where w'': "wake quietEnv 0 (tick 30000000000 ?w1) = Some w''" by blast
  with later [OF i2] have "filter isClose (since (tick 30000000000 ?w1) w'') = [CloseCall ?wc]"
    by blast
  with w'' have woken: "\<exists>w''. wake quietEnv 0 (tick 30000000000 ?w1) = Some w'' \<and>
      filter isClose (since (tick 30000000000 ?w1) w'') = [CloseCall ?wc]" by blast
  from idle tr early woken show ?thesis by blast
qed

subsection \<open>The calls of the dispatcher\<close>

lemma ran_emit: "ran (emit e w) = ran w @ (if isRan e then [e] else [])"
  by (simp add: ran_def emit_def)





lemma ran_File_Write: "ran (snd (File_Write E f p w)) = ran w"
  by (simp add: ran_def File_Write_def emit_def)

lemma ran_Write: "ran (snd (Write E wc p w)) = ran w"
  by (cases wc) (simp_all add: ran_File_Write stderrWriter_Write_def stdoutWriter_Write_def ran_emit)






text \<open>The factories of the package and the doubles of the tests are quiet.\<close>

lemma quiet_newWriter: "quietFactory (newWriter E)"
  by (simp add: quietFactory_def newWriter_def ioutil_TempFile_def Let_def trace_log_Printf
      ran_def emit_def split: sum.splits)

lemma quiet_newProfiler: "quietProfiler (newProfiler E)"
  by (simp add: quietProfiler_def newProfiler_def writeProfile_def cpuProfile_def
      pprof_StartCPUProfile_def Profile_WriteTo_def ran_Write [unfolded ran_def] Let_def
      ran_def emit_def split: sum.splits option.splits)



lemma quiet_errorProfiler: "quietProfiler errorProfiler"
  by (simp add: quietProfiler_def errorProfiler_def)



end
